theory Spec2Isabelle
  imports Complex_Main "HOL-Library.Word" "HOL-Library.Sublist"
begin

section \<open>Go values shared by the packages\<close>

text \<open>
  Go's \<open>int\<close> is the 64-bit two's complement integer of the platforms the server is built
  for: \<open>+\<close> and \<open>-\<close> wrap, comparisons are signed. The builtin \<open>max\<close> on two ints is the
  signed maximum.
\<close>

type_synonym go_int = "64 word"

definition go_max :: "go_int \<Rightarrow> go_int \<Rightarrow> go_int" where
  "go_max a b = (if a <s b then b else a)"

text \<open>
  gRPC status codes (package \<open>codes\<close>), restricted to the ones the repository mentions,
  and Go error values. \<open>Errorf\<close> is the result of \<open>fmt.Errorf\<close> without \<open>%w\<close> (only a text),
  \<open>Wrapf prefix err\<close> the result of \<open>fmt.Errorf("prefix%w", err)\<close>, \<open>StatusError c m\<close> the
  result of \<open>status.Error(c, m)\<close>. \<open>ErrRecordNotFound\<close> is \<open>gorm.ErrRecordNotFound\<close>;
  \<open>DriverError\<close> stands for every other error the store can report.
\<close>

datatype code = OK | Unknown | InvalidArgument | NotFound | AlreadyExists
  | FailedPrecondition | Internal | Unauthenticated

datatype go_error =
    ErrRecordNotFound
  | DriverError string
  | Errorf string
  | Wrapf string go_error
  | StatusError code string

text \<open>\<open>err.Error()\<close>: the text of an error; wrapping prepends the format's text.\<close>

fun code_name :: "code \<Rightarrow> string" where
  "code_name OK = ''OK''"
| "code_name Unknown = ''Unknown''"
| "code_name InvalidArgument = ''InvalidArgument''"
| "code_name NotFound = ''NotFound''"
| "code_name AlreadyExists = ''AlreadyExists''"
| "code_name FailedPrecondition = ''FailedPrecondition''"
| "code_name Internal = ''Internal''"
| "code_name Unauthenticated = ''Unauthenticated''"

fun Error :: "go_error \<Rightarrow> string" where
  "Error ErrRecordNotFound = ''record not found''"
| "Error (DriverError m) = m"
| "Error (Errorf m) = m"
| "Error (Wrapf p e) = p @ Error e"
| "Error (StatusError c m) = ''rpc error: code = '' @ code_name c @ '' desc = '' @ m"

text \<open>
  \<open>status.Code(err)\<close>: the code of a status error, also when it is wrapped; \<open>Unknown\<close>
  for every error that is not a status error; \<open>OK\<close> for \<open>nil\<close>.
\<close>

fun status_Code_err :: "go_error \<Rightarrow> code" where
  "status_Code_err (StatusError c m) = c"
| "status_Code_err (Wrapf p e) = status_Code_err e"
| "status_Code_err ErrRecordNotFound = Unknown"
| "status_Code_err (DriverError m) = Unknown"
| "status_Code_err (Errorf m) = Unknown"

fun status_Code :: "go_error option \<Rightarrow> code" where
  "status_Code None = OK"
| "status_Code (Some e) = status_Code_err e"

text \<open>Values a running goroutine can panic with.\<close>

datatype panic_value =
    IndexOutOfRange int int
  | MakesliceLenOutOfRange
  | PanicValue string

section \<open>Package time\<close>

text \<open>
  A \<open>time.Time\<close> is an instant, held as nanoseconds since 1970-01-01T00:00:00Z. A
  \<open>time.Duration\<close> is an int64 count of nanoseconds. \<open>t.Sub(u)\<close> saturates at the largest
  and smallest Duration. \<open>d.Hours()\<close> is a float64; the model evaluates the floating
  point expression \<open>d.Hours()/24\<close> exactly, as a rational number (the two agree whenever
  the duration is a whole number of days). The conversion \<open>int(x)\<close> truncates toward zero.
\<close>

type_synonym go_time = int
type_synonym duration = int

definition zero_time :: go_time where
  "zero_time = - 62135596800000000000"

definition IsZero :: "go_time \<Rightarrow> bool" where
  "IsZero t = (t = zero_time)"

definition maxDuration :: duration where
  "maxDuration = 9223372036854775807"

definition minDuration :: duration where
  "minDuration = - 9223372036854775808"

definition Sub :: "go_time \<Rightarrow> go_time \<Rightarrow> duration" where
  "Sub t u =
     (if t - u > maxDuration then maxDuration
      else if t - u < minDuration then minDuration
      else t - u)"

definition Hours :: "duration \<Rightarrow> rat" where
  "Hours d = of_int d / 3600000000000"

definition int_of_float :: "rat \<Rightarrow> go_int" where
  "int_of_float x = word_of_int (if 0 \<le> x then \<lfloor>x\<rfloor> else \<lceil>x\<rceil>)"

definition nsPerDay :: int where
  "nsPerDay = 86400000000000"

text \<open>
  \<open>t.Year()\<close> for an instant in UTC: the year of the proleptic Gregorian calendar that
  holds the day number \<open>t div nsPerDay\<close>.
\<close>

definition year_of_days :: "int \<Rightarrow> int" where
  "year_of_days z0 =
     (let z = z0 + 719468;
          era = z div 146097;
          doe = z - era * 146097;
          yoe = (doe - doe div 1460 + doe div 36524 - doe div 146096) div 365;
          doy = doe - (365 * yoe + yoe div 4 - yoe div 100);
          mp = (5 * doy + 2) div 153
      in yoe + era * 400 + (if mp < 10 then 0 else 1))"

definition Time_Year :: "go_time \<Rightarrow> go_int" where
  "Time_Year t = word_of_int (year_of_days (t div nsPerDay))"

section \<open>Package leave: models\<close>

text \<open>
  The structs of \<open>models.go\<close>. The association pointers \<open>Employee\<close> and \<open>Approver\<close> of a
  leave request are filled by preloading only and are no column of the row; they are
  left out. A field name that several structs share is written with its struct's name
  in front.
\<close>

record LeaveRequest =
  ID :: string
  EmployeeID :: string
  LeaveType :: string
  StartDate :: go_time
  EndDate :: go_time
  DaysRequested :: go_int
  Reason :: string
  LeaveStatus :: string
  ApproverID :: "string option"
  Comments :: string
  ApprovedAt :: "go_time option"
  CreatedAt :: go_time
  UpdatedAt :: go_time
  DeletedAt :: "go_time option"

record LeaveBalance =
  ID :: string
  EmployeeID :: string
  LeaveType :: string
  Year :: go_int
  TotalDays :: go_int
  UsedDays :: go_int
  RemainingDays :: go_int
  CreatedAt :: go_time
  UpdatedAt :: go_time
  DeletedAt :: "go_time option"

record CreateLeaveRequestRequest =
  EmployeeID :: string
  LeaveType :: string
  StartDate :: go_time
  EndDate :: go_time
  Reason :: string

record UpdateLeaveRequestRequest =
  LeaveType :: string
  StartDate :: go_time
  EndDate :: go_time
  Reason :: string

record ApproveLeaveRequestRequest =
  ApproverID :: string
  Comments :: string

record RejectLeaveRequestRequest =
  ApproverID :: string
  Comments :: string

text \<open>\<open>calculateDaysRequested\<close>: both the start and the end date count.\<close>

definition calculateDaysRequested :: "go_time \<Rightarrow> go_time \<Rightarrow> go_int" where
  "calculateDaysRequested startDate endDate =
     (let duration = Sub endDate startDate;
          days = int_of_float (Hours duration / 24) + 1
      in if days <s 0 then 0 else days)"


text \<open>\<open>ApplyUpdate\<close>: the day count is computed again when a date of the request is given.\<close>

definition ApplyUpdate :: "LeaveRequest \<Rightarrow> UpdateLeaveRequestRequest \<Rightarrow> LeaveRequest" where
  "ApplyUpdate lr req =
     (let lr = (if UpdateLeaveRequestRequest.LeaveType req \<noteq> []
                then lr\<lparr>LeaveRequest.LeaveType := UpdateLeaveRequestRequest.LeaveType req\<rparr>
                else lr);
          lr = (if \<not> IsZero (UpdateLeaveRequestRequest.StartDate req)
                then lr\<lparr>LeaveRequest.StartDate := UpdateLeaveRequestRequest.StartDate req\<rparr>
                else lr);
          lr = (if \<not> IsZero (UpdateLeaveRequestRequest.EndDate req)
                then lr\<lparr>LeaveRequest.EndDate := UpdateLeaveRequestRequest.EndDate req\<rparr>
                else lr);
          lr = (if UpdateLeaveRequestRequest.Reason req \<noteq> []
                then lr\<lparr>LeaveRequest.Reason := UpdateLeaveRequestRequest.Reason req\<rparr>
                else lr)
      in if \<not> IsZero (UpdateLeaveRequestRequest.StartDate req)
            \<or> \<not> IsZero (UpdateLeaveRequestRequest.EndDate req)
         then lr\<lparr>DaysRequested :=
                 calculateDaysRequested (LeaveRequest.StartDate lr) (LeaveRequest.EndDate lr)\<rparr>
         else lr)"

text \<open>\<open>GetRemainingDays\<close> and \<open>HasSufficientBalance\<close>.\<close>

definition GetRemainingDays :: "LeaveBalance \<Rightarrow> go_int" where
  "GetRemainingDays lb =
     (let remaining = TotalDays lb - UsedDays lb
      in if remaining <s 0 then 0 else remaining)"

definition HasSufficientBalance :: "LeaveBalance \<Rightarrow> go_int \<Rightarrow> bool" where
  "HasSufficientBalance lb requestedDays = (requestedDays \<le>s GetRemainingDays lb)"

section \<open>Package leave: repository\<close>

text \<open>
  The store holds the two tables the repository reads and writes, each a list of rows in
  primary key order. What the program does not decide is passed in: the instant
  \<open>time.Now()\<close> returns inside the call, the instant the ORM's \<open>NowFunc\<close> stamps on
  \<open>updated_at\<close>, and, for every statement sent to the store, whether the store reports an
  error for it.
\<close>

record db =
  leaves :: "LeaveRequest list"
  leave_balances :: "LeaveBalance list"

datatype db_op = OpBegin | OpCommit | OpFirstLeave | OpUpdatesLeave
  | OpFirstBalance | OpSaveBalance

record env =
  now :: go_time
  NowFunc :: go_time
  fault :: "db_op \<Rightarrow> go_error option"

text \<open>
  \<open>db.Transaction(fc)\<close>: the writes of \<open>fc\<close> reach the store only when \<open>fc\<close> returns
  \<open>nil\<close> and the commit succeeds; otherwise the store is as it was before.
\<close>

definition Transaction ::
  "env \<Rightarrow> (db \<Rightarrow> go_error option \<times> db) \<Rightarrow> db \<Rightarrow> go_error option \<times> db" where
  "Transaction e fc d =
     (case fault e OpBegin of
        Some err \<Rightarrow> (Some err, d)
      | None \<Rightarrow>
         (case fc d of
            (Some err, tx) \<Rightarrow> (Some err, d)
          | (None, tx) \<Rightarrow>
             (case fault e OpCommit of
                Some err \<Rightarrow> (Some err, d)
              | None \<Rightarrow> (None, tx))))"

text \<open>
  \<open>tx.First(&leave, "id = ?", id)\<close> and the balance lookup: the first row that matches
  and is not soft-deleted, \<open>gorm.ErrRecordNotFound\<close> when there is none. The field
  \<open>RemainingDays\<close> is tagged \<open>gorm:"-"\<close>: it is never read from the store (a loaded struct
  holds 0 there) and never written to it.
\<close>

definition First_leave :: "env \<Rightarrow> db \<Rightarrow> string \<Rightarrow> go_error + LeaveRequest" where
  "First_leave e tx id' =
     (case fault e OpFirstLeave of
        Some err \<Rightarrow> Inl err
      | None \<Rightarrow>
         (case find (\<lambda>r. LeaveRequest.ID r = id' \<and> LeaveRequest.DeletedAt r = None) (leaves tx) of
            None \<Rightarrow> Inl ErrRecordNotFound
          | Some r \<Rightarrow> Inr r))"

definition balance_matches :: "string \<Rightarrow> string \<Rightarrow> go_int \<Rightarrow> LeaveBalance \<Rightarrow> bool" where
  "balance_matches employee_id leave_type year r =
     (LeaveBalance.EmployeeID r = employee_id \<and> LeaveBalance.LeaveType r = leave_type
      \<and> LeaveBalance.Year r = year \<and> LeaveBalance.DeletedAt r = None)"

definition First_balance ::
  "env \<Rightarrow> db \<Rightarrow> string \<Rightarrow> string \<Rightarrow> go_int \<Rightarrow> go_error + LeaveBalance" where
  "First_balance e tx employee_id leave_type year =
     (case fault e OpFirstBalance of
        Some err \<Rightarrow> Inl err
      | None \<Rightarrow>
         (case find (balance_matches employee_id leave_type year) (leave_balances tx) of
            None \<Rightarrow> Inl ErrRecordNotFound
          | Some r \<Rightarrow> Inr (r\<lparr>RemainingDays := 0\<rparr>)))"

text \<open>
  \<open>Model(&LeaveRequest{}).Where(cond).Updates(updateData)\<close>: one entry of the map is one
  column assignment; every row that matches and is not soft-deleted gets all of them,
  and \<open>updated_at\<close> is stamped.
\<close>

datatype assignment =
    Set_leave_type string
  | Set_start_date go_time
  | Set_end_date go_time
  | Set_reason string
  | Set_leave_status string
  | Set_approver_id string
  | Set_comments string
  | Set_approved_at go_time

fun assign :: "assignment \<Rightarrow> LeaveRequest \<Rightarrow> LeaveRequest" where
  "assign (Set_leave_type v) r = r\<lparr>LeaveRequest.LeaveType := v\<rparr>"
| "assign (Set_start_date v) r = r\<lparr>LeaveRequest.StartDate := v\<rparr>"
| "assign (Set_end_date v) r = r\<lparr>LeaveRequest.EndDate := v\<rparr>"
| "assign (Set_reason v) r = r\<lparr>LeaveRequest.Reason := v\<rparr>"
| "assign (Set_leave_status v) r = r\<lparr>LeaveStatus := v\<rparr>"
| "assign (Set_approver_id v) r = r\<lparr>LeaveRequest.ApproverID := Some v\<rparr>"
| "assign (Set_comments v) r = r\<lparr>LeaveRequest.Comments := v\<rparr>"
| "assign (Set_approved_at v) r = r\<lparr>ApprovedAt := Some v\<rparr>"

definition update_row :: "env \<Rightarrow> string \<Rightarrow> assignment list \<Rightarrow> LeaveRequest \<Rightarrow> LeaveRequest" where
  "update_row e id' updateData r =
     (if LeaveRequest.ID r = id' \<and> LeaveRequest.DeletedAt r = None
      then (fold assign updateData r)\<lparr>LeaveRequest.UpdatedAt := NowFunc e\<rparr>
      else r)"

definition Updates :: "env \<Rightarrow> string \<Rightarrow> assignment list \<Rightarrow> db \<Rightarrow> go_error option \<times> db" where
  "Updates e id' updateData tx =
     (case fault e OpUpdatesLeave of
        Some err \<Rightarrow> (Some err, tx)
      | None \<Rightarrow> (None, tx\<lparr>leaves := map (update_row e id' updateData) (leaves tx)\<rparr>))"

text \<open>
  \<open>tx.Save(&balance)\<close> for a struct that was loaded from the table: every stored column
  of the row with the struct's primary key is overwritten, \<open>updated_at\<close> is stamped.
\<close>

definition save_row :: "env \<Rightarrow> LeaveBalance \<Rightarrow> LeaveBalance \<Rightarrow> LeaveBalance" where
  "save_row e balance r =
     (if LeaveBalance.ID r = LeaveBalance.ID balance
      then balance\<lparr>RemainingDays := RemainingDays r, LeaveBalance.UpdatedAt := NowFunc e\<rparr>
      else r)"

definition Save :: "env \<Rightarrow> LeaveBalance \<Rightarrow> db \<Rightarrow> go_error option \<times> db" where
  "Save e balance tx =
     (case fault e OpSaveBalance of
        Some err \<Rightarrow> (Some err, tx)
      | None \<Rightarrow> (None, tx\<lparr>leave_balances := map (save_row e balance) (leave_balances tx)\<rparr>))"

text \<open>\<open>repository.Update\<close>.\<close>

definition Update ::
  "env \<Rightarrow> db \<Rightarrow> string \<Rightarrow> UpdateLeaveRequestRequest \<Rightarrow> go_error option \<times> db" where
  "Update e d id' req =
     (let updateData =
            (if UpdateLeaveRequestRequest.LeaveType req \<noteq> []
             then [Set_leave_type (UpdateLeaveRequestRequest.LeaveType req)] else [])
          @ (if \<not> IsZero (UpdateLeaveRequestRequest.StartDate req)
             then [Set_start_date (UpdateLeaveRequestRequest.StartDate req)] else [])
          @ (if \<not> IsZero (UpdateLeaveRequestRequest.EndDate req)
             then [Set_end_date (UpdateLeaveRequestRequest.EndDate req)] else [])
          @ (if UpdateLeaveRequestRequest.Reason req \<noteq> []
             then [Set_reason (UpdateLeaveRequestRequest.Reason req)] else [])
      in if length updateData = 0 then (Some (Errorf ''no fields to update''), d)
         else (case Updates e id' updateData d of
                 (Some err, d') \<Rightarrow> (Some (Wrapf ''failed to update leave request: '' err), d')
               | (None, d') \<Rightarrow> (None, d')))"

text \<open>\<open>repository.ApproveLeave\<close>.\<close>

definition ApproveLeave ::
  "env \<Rightarrow> db \<Rightarrow> string \<Rightarrow> ApproveLeaveRequestRequest \<Rightarrow> go_error option \<times> db" where
  "ApproveLeave e d id' req =
     Transaction e (\<lambda>tx.
       case First_leave e tx id' of
         Inl err \<Rightarrow> (Some (Wrapf ''leave request not found: '' err), tx)
       | Inr leave \<Rightarrow>
          if LeaveStatus leave \<noteq> ''PENDING''
          then (Some (Errorf (''cannot approve leave with status: '' @ LeaveStatus leave)), tx)
          else
           (case Updates e (LeaveRequest.ID leave)
                   [Set_leave_status ''APPROVED'',
                    Set_approver_id (ApproveLeaveRequestRequest.ApproverID req),
                    Set_comments (ApproveLeaveRequestRequest.Comments req),
                    Set_approved_at (now e)] tx of
              (Some err, tx1) \<Rightarrow> (Some (Wrapf ''failed to approve leave: '' err), tx1)
            | (None, tx1) \<Rightarrow>
               (case First_balance e tx1 (LeaveRequest.EmployeeID leave)
                       (LeaveRequest.LeaveType leave) (Time_Year (LeaveRequest.StartDate leave)) of
                  Inl err \<Rightarrow> (Some (Wrapf ''failed to fetch leave balance: '' err), tx1)
                | Inr balance \<Rightarrow>
                   (let balance = balance\<lparr>UsedDays := UsedDays balance + DaysRequested leave\<rparr>;
                        balance = balance\<lparr>TotalDays := go_max (TotalDays balance) (UsedDays balance)\<rparr>
                    in case Save e balance tx1 of
                         (Some err, tx2) \<Rightarrow>
                           (Some (Wrapf ''failed to update leave balance: '' err), tx2)
                       | (None, tx2) \<Rightarrow> (None, tx2))))) d"

text \<open>\<open>repository.RejectLeave\<close>.\<close>

definition RejectLeave ::
  "env \<Rightarrow> db \<Rightarrow> string \<Rightarrow> RejectLeaveRequestRequest \<Rightarrow> go_error option \<times> db" where
  "RejectLeave e d id' req =
     Transaction e (\<lambda>tx.
       case First_leave e tx id' of
         Inl err \<Rightarrow> (Some (Wrapf ''leave request not found: '' err), tx)
       | Inr leave \<Rightarrow>
          if LeaveStatus leave \<noteq> ''PENDING''
          then (Some (Errorf (''cannot reject leave with status: '' @ LeaveStatus leave)), tx)
          else
           (case Updates e (LeaveRequest.ID leave)
                   [Set_leave_status ''REJECTED'',
                    Set_approver_id (RejectLeaveRequestRequest.ApproverID req),
                    Set_comments (RejectLeaveRequestRequest.Comments req),
                    Set_approved_at (now e)] tx of
              (Some err, tx1) \<Rightarrow> (Some (Wrapf ''failed to reject leave: '' err), tx1)
            | (None, tx1) \<Rightarrow> (None, tx1))) d"

section \<open>Package middleware\<close>

text \<open>
  A \<open>context.Context\<close> as the interceptors see it: the incoming call metadata, when
  the call has any, and the values stored with \<open>context.WithValue\<close>, the latest first.
  A key is compared with its dynamic type: the plain string \<open>"token"\<close> and the typed
  \<open>contextKey("token")\<close> are different keys. Looking up a metadata key that is absent
  gives the \<open>nil\<close> slice, so the metadata is a total function into lists.
\<close>

type_synonym MD = "string \<Rightarrow> string list"

datatype ctx_key = StringKey string | contextKey string

datatype ctx_value = StringValue string | OtherValue nat

record go_context =
  incoming :: "MD option"
  vals :: "(ctx_key \<times> ctx_value) list"

definition FromIncomingContext :: "go_context \<Rightarrow> MD option" where
  "FromIncomingContext ctx = incoming ctx"

definition WithValue :: "go_context \<Rightarrow> ctx_key \<Rightarrow> ctx_value \<Rightarrow> go_context" where
  "WithValue ctx k v = ctx\<lparr>vals := (k, v) # vals ctx\<rparr>"

definition Value :: "go_context \<Rightarrow> ctx_key \<Rightarrow> ctx_value option" where
  "Value ctx k = map_of (vals ctx) k"

definition HasPrefix :: "string \<Rightarrow> string \<Rightarrow> bool" where
  "HasPrefix s p = prefix p s"

definition TrimPrefix :: "string \<Rightarrow> string \<Rightarrow> string" where
  "TrimPrefix s p = (if prefix p s then drop (length p) s else s)"

text \<open>\<open>AuthFunc\<close>: \<open>Inl\<close> is the result \<open>(nil, err)\<close>, \<open>Inr\<close> the result \<open>(ctx, nil)\<close>.\<close>

definition AuthFunc :: "go_context \<Rightarrow> go_error + go_context" where
  "AuthFunc ctx =
     (case FromIncomingContext ctx of
        None \<Rightarrow> Inl (StatusError Unauthenticated ''missing metadata'')
      | Some md \<Rightarrow>
         (let authHeaders = md ''authrorization''
          in if length authHeaders = 0
             then Inl (StatusError Unauthenticated ''missing authorization header'')
             else
              (let authHeader = hd authHeaders
               in if \<not> HasPrefix authHeader ''Bearer''
                  then Inl (StatusError Unauthenticated ''invalid authorization format'')
                  else
                   (let token = TrimPrefix authHeader ''Bearer ''
                    in if token = []
                       then Inl (StatusError Unauthenticated ''missing token'')
                       else Inr (WithValue ctx (contextKey ''token'') (StringValue token))))))"

text \<open>\<open>GetTokenFromContext\<close>: the type assertion fails on a missing or non-string value.\<close>

definition GetTokenFromContext :: "go_context \<Rightarrow> string \<times> bool" where
  "GetTokenFromContext ctx =
     (case Value ctx (StringKey ''token'') of
        Some (StringValue token) \<Rightarrow> (token, True)
      | _ \<Rightarrow> ([], False))"

definition publicEndpoints :: "string list" where
  "publicEndpoints =
     [''/hr.auth.v1.AuthService/Login'',
      ''/hr.auth.v1.AuthServce/RefreshToken'']"

definition SkipAuth :: "string \<Rightarrow> bool" where
  "SkipAuth fullMethodName = (fullMethodName \<in> set publicEndpoints)"

text \<open>
  A handler either returns its pair \<open>(resp, err)\<close> or panics. An interceptor that does
  not recover passes the panic of its handler on.
\<close>

datatype 'r outcome = Return "'r option" "go_error option" | Panic panic_value

type_synonym ('q, 'r) UnaryHandler = "go_context \<Rightarrow> 'q \<Rightarrow> 'r outcome"

definition UnaryAuthInterceptor ::
  "go_context \<Rightarrow> 'q \<Rightarrow> string \<Rightarrow> ('q, 'r) UnaryHandler \<Rightarrow> 'r outcome" where
  "UnaryAuthInterceptor ctx req FullMethod handler =
     (if SkipAuth FullMethod then handler ctx req
      else (case AuthFunc ctx of
              Inl err \<Rightarrow> Return None (Some err)
            | Inr newCtx \<Rightarrow> handler newCtx req))"

text \<open>
  \<open>RecoveryInterceptor\<close>: the deferred function logs the recovered value and sets the
  named result \<open>err\<close>; the named result \<open>resp\<close> still holds \<open>nil\<close> then. The logger is the
  list of the entries written so far.
\<close>

datatype field_value = FieldString string | FieldPanic panic_value

type_synonym log_entry = "string \<times> string \<times> (string \<times> field_value) list"

definition RecoveryInterceptor ::
  "log_entry list \<Rightarrow> go_context \<Rightarrow> 'q \<Rightarrow> string \<Rightarrow> ('q, 'r) UnaryHandler
     \<Rightarrow> 'r outcome \<times> log_entry list" where
  "RecoveryInterceptor logger ctx req FullMethod handler =
     (case handler ctx req of
        Panic r \<Rightarrow>
          (Return None (Some (StatusError Internal ''internal server error'')),
           logger @ [(''error'', ''Panic recovered'',
                   [(''method'', FieldString FullMethod), (''panic'', FieldPanic r)])])
      | Return resp err \<Rightarrow> (Return resp err, logger))"

text \<open>
  \<open>randomString\<close>: the loop ranges over the indices of \<open>charset\<close>. The \<open>i\<close>-th reading of
  \<open>time.Now().UnixNano()\<close> is \<open>clock i\<close>. Go's \<open>%\<close> truncates toward zero; indexing
  outside a string or a slice panics, the right-hand side being evaluated first.
\<close>

definition charset :: string where
  "charset = ''abcdefghijklmnopqrstuvwxyzABCDEFGHIJKLMNOPQRSTUVWXYZ0123456789''"

definition go_rem :: "int \<Rightarrow> int \<Rightarrow> int" where
  "go_rem a b = sgn a * (\<bar>a\<bar> mod \<bar>b\<bar>)"

fun randomString_loop :: "(nat \<Rightarrow> int) \<Rightarrow> nat list \<Rightarrow> string \<Rightarrow> panic_value + string" where
  "randomString_loop clock [] b = Inr b"
| "randomString_loop clock (i # rest) b =
     (let k = go_rem (clock i) (int (length charset))
      in if k < 0 \<or> int (length charset) \<le> k
         then Inl (IndexOutOfRange k (int (length charset)))
         else if length b \<le> i
         then Inl (IndexOutOfRange (int i) (int (length b)))
         else randomString_loop clock rest (b[i := charset ! nat k]))"

definition randomString :: "(nat \<Rightarrow> int) \<Rightarrow> go_int \<Rightarrow> panic_value + string" where
  "randomString clock length' =
     (if length' <s 0 then Inl MakesliceLenOutOfRange
      else randomString_loop clock [0..<length charset]
             (replicate (nat (sint length')) (CHR 0x00)))"

text \<open>
  \<open>generateRequestID\<close>: \<open>stamp\<close> is the text \<open>time.Now().Format("20060102150405")\<close>
  returns.
\<close>

definition generateRequestID :: "string \<Rightarrow> (nat \<Rightarrow> int) \<Rightarrow> panic_value + string" where
  "generateRequestID stamp clock =
     (case randomString clock 8 of
        Inl p \<Rightarrow> Inl p
      | Inr s \<Rightarrow> Inr (stamp @ ''-'' @ s))"

definition getRequestID :: "go_context \<Rightarrow> string \<Rightarrow> (nat \<Rightarrow> int) \<Rightarrow> panic_value + string" where
  "getRequestID ctx stamp clock =
     (case Value ctx (StringKey ''request_id'') of
        Some (StringValue reqID) \<Rightarrow> Inr reqID
      | _ \<Rightarrow> generateRequestID stamp clock)"

section \<open>Example data\<close>

text \<open>
  A store with one pending three-day request (2024-01-01 to 2024-01-03) of employee
  \<open>E1\<close> and the matching balance row for 2024 with ten days allotted and two used; the
  same store with the request already rejected; a store that answers every statement.
\<close>

definition day_2024_01_01 :: go_time where
  "day_2024_01_01 = 1704067200000000000"

definition day_2024_01_03 :: go_time where
  "day_2024_01_03 = 1704240000000000000"

definition day_2024_01_10 :: go_time where
  "day_2024_01_10 = 1704844800000000000"


definition leave0 :: LeaveRequest where
  "leave0 = \<lparr> LeaveRequest.ID = ''L1'',
              LeaveRequest.EmployeeID = ''E1'',
              LeaveRequest.LeaveType = ''ANNUAL'',
              LeaveRequest.StartDate = day_2024_01_01,
              LeaveRequest.EndDate = day_2024_01_03,
              DaysRequested = 3,
              LeaveRequest.Reason = ''family'',
              LeaveStatus = ''PENDING'',
              LeaveRequest.ApproverID = None,
              LeaveRequest.Comments = [],
              ApprovedAt = None,
              LeaveRequest.CreatedAt = 1700000000000000000,
              LeaveRequest.UpdatedAt = 1700000000000000000,
              LeaveRequest.DeletedAt = None \<rparr>"

definition balance0 :: LeaveBalance where
  "balance0 = \<lparr> LeaveBalance.ID = ''B1'',
                LeaveBalance.EmployeeID = ''E1'',
                LeaveBalance.LeaveType = ''ANNUAL'',
                LeaveBalance.Year = 2024,
                TotalDays = 10,
                UsedDays = 2,
                RemainingDays = 0,
                LeaveBalance.CreatedAt = 1700000000000000000,
                LeaveBalance.UpdatedAt = 1700000000000000000,
                LeaveBalance.DeletedAt = None \<rparr>"

definition db0 :: db where
  "db0 = \<lparr> leaves = [leave0], leave_balances = [balance0] \<rparr>"

definition db_rejected :: db where
  "db_rejected = \<lparr> leaves = [leave0\<lparr>LeaveStatus := ''REJECTED''\<rparr>],
                   leave_balances = [balance0] \<rparr>"

definition env0 :: env where
  "env0 = \<lparr> now = 1704000000000000000, NowFunc = 1704000000000000001,
             fault = (\<lambda>op. None) \<rparr>"

definition approve0 :: ApproveLeaveRequestRequest where
  "approve0 = \<lparr> ApproveLeaveRequestRequest.ApproverID = ''M1'',
                ApproveLeaveRequestRequest.Comments = ''ok'' \<rparr>"

definition reject0 :: RejectLeaveRequestRequest where
  "reject0 = \<lparr> RejectLeaveRequestRequest.ApproverID = ''M1'',
               RejectLeaveRequestRequest.Comments = ''no cover'' \<rparr>"



text \<open>An update that moves the end date to 2024-01-10 and leaves the other fields.\<close>

definition update0 :: UpdateLeaveRequestRequest where
  "update0 = \<lparr> UpdateLeaveRequestRequest.LeaveType = [],
               UpdateLeaveRequestRequest.StartDate = zero_time,
               UpdateLeaveRequestRequest.EndDate = day_2024_01_10,
               UpdateLeaveRequestRequest.Reason = [] \<rparr>"

text \<open>
  Calls with the bearer credential under the standard metadata key \<open>authorization\<close>,
  with the text \<open>Bearer\<close> and no token under the key \<open>AuthFunc\<close> reads, with a credential
  under that key and a string already stored under the plain key \<open>"token"\<close>, and with a
  credential under that key and no value stored.
\<close>

definition ctx_bearer :: go_context where
  "ctx_bearer = \<lparr> incoming = Some ((\<lambda>k. [])(''authorization'' := [''Bearer abc123''])),
                   vals = [] \<rparr>"

definition ctx_no_token :: go_context where
  "ctx_no_token = \<lparr> incoming = Some ((\<lambda>k. [])(''authrorization'' := [''Bearer''])),
                     vals = [] \<rparr>"

definition ctx_stale :: go_context where
  "ctx_stale = \<lparr> incoming = Some ((\<lambda>k. [])(''authrorization'' := [''Bearer abc123''])),
                  vals = [(StringKey ''token'', StringValue ''stale'')] \<rparr>"

definition ctx_fresh :: go_context where
  "ctx_fresh = \<lparr> incoming = Some ((\<lambda>k. [])(''authrorization'' := [''Bearer abc123''])),
                  vals = [] \<rparr>"

text \<open>
  Handlers: one answers with the value stored under \<open>contextKey("token")\<close>, one
  panics, one answers with its request.
\<close>

definition token_handler :: "(string, ctx_value option) UnaryHandler" where
  "token_handler ctx req = Return (Some (Value ctx (contextKey ''token''))) None"

definition panic_handler :: "(string, string) UnaryHandler" where
  "panic_handler ctx req = Panic (PanicValue ''nil pointer dereference'')"

definition echo_handler :: "(string, string) UnaryHandler" where
  "echo_handler ctx req = Return (Some req) None"

definition clock0 :: "nat \<Rightarrow> int" where
  "clock0 i = 1704000000000000000 + int i"

section \<open>Go integers and day counts\<close>





lemma trunc_days_nonneg:
  assumes "0 \<le> d"
  shows "int_of_float (Hours d / 24) = word_of_int (d div nsPerDay)"
proof -
  have "Hours d / 24 = (of_int d :: rat) / of_int nsPerDay"
    by (simp add: Hours_def nsPerDay_def)
  moreover have "(0::rat) \<le> of_int d / of_int nsPerDay"
    using assms by (simp add: nsPerDay_def)
  ultimately show ?thesis
    by (simp add: int_of_float_def floor_divide_of_int_eq)
qed

lemma sint_small:
  assumes "0 \<le> k" "k \<le> 106752"
  shows "sint (word_of_int k :: go_int) = k"
proof -
  have "- (2 ^ 63) \<le> k" "k < 2 ^ 63" using assms by simp_all
  then have "signed_take_bit 63 k = k" by (rule signed_take_bit_int_eq_self)
  then show ?thesis by (simp add: sint_sbintrunc')
qed

lemma calculateDaysRequested_in_range:
  assumes "s \<le> e" "e - s \<le> maxDuration"
  shows "sint (calculateDaysRequested s e) = (e - s) div nsPerDay + 1"
proof -
  let ?d = "e - s"
  have sub: "Sub e s = ?d"
    using assms by (simp add: Sub_def minDuration_def maxDuration_def)
  have d0: "0 \<le> ?d" using assms by simp
  have q0: "0 \<le> ?d div nsPerDay"
    using d0 by (simp add: nsPerDay_def pos_imp_zdiv_nonneg_iff)
  have "?d div nsPerDay \<le> maxDuration div nsPerDay"
    using assms(2) by (simp add: nsPerDay_def zdiv_mono1)
  then have q1: "?d div nsPerDay + 1 \<le> 106752"
    by (simp add: nsPerDay_def maxDuration_def)
  have w: "(word_of_int (?d div nsPerDay) + 1 :: go_int) = word_of_int (?d div nsPerDay + 1)"
    by simp
  have s: "sint (word_of_int (?d div nsPerDay + 1) :: go_int) = ?d div nsPerDay + 1"
    using q0 q1 by (intro sint_small) simp_all
  have nn: "\<not> (word_of_int (?d div nsPerDay + 1) :: go_int) <s 0"
    using s q0 by (simp add: word_sless_alt)
  show ?thesis
    unfolding calculateDaysRequested_def Let_def sub trunc_days_nonneg[OF d0] w
    using nn s by simp
qed





lemma span_2024_01_10: "(day_2024_01_10 - day_2024_01_01) div nsPerDay + 1 = 10"
  by (simp add: day_2024_01_10_def day_2024_01_01_def nsPerDay_def)





section \<open>The leave repository\<close>

lemma Transaction_rollback:
  "fst (Transaction e fc d) \<noteq> None \<Longrightarrow> snd (Transaction e fc d) = d"
  by (auto simp: Transaction_def split: option.splits prod.splits)

lemma Transaction_fails:
  "fst (fc d) \<noteq> None \<Longrightarrow> fst (Transaction e fc d) \<noteq> None"
  by (auto simp: Transaction_def split: option.splits prod.splits)

lemma assign_keeps_key:
  "LeaveRequest.ID (assign a r) = LeaveRequest.ID r"
  "LeaveRequest.DeletedAt (assign a r) = LeaveRequest.DeletedAt r"
  by (cases a; simp)+

lemma fold_assign_keeps_key:
  "LeaveRequest.ID (fold assign as r) = LeaveRequest.ID r
   \<and> LeaveRequest.DeletedAt (fold assign as r) = LeaveRequest.DeletedAt r"
  by (induction as arbitrary: r) (simp_all add: assign_keeps_key)

lemma find_update_row:
  "find (\<lambda>r. LeaveRequest.ID r = k \<and> LeaveRequest.DeletedAt r = None)
        (map (update_row e k as) xs)
   = map_option (\<lambda>r. (fold assign as r)\<lparr>LeaveRequest.UpdatedAt := NowFunc e\<rparr>)
       (find (\<lambda>r. LeaveRequest.ID r = k \<and> LeaveRequest.DeletedAt r = None) xs)"
  by (induction xs) (auto simp: update_row_def fold_assign_keeps_key)

lemma find_leave_Some:
  "find (\<lambda>r. LeaveRequest.ID r = k \<and> LeaveRequest.DeletedAt r = None) xs = Some l
   \<Longrightarrow> LeaveRequest.ID l = k \<and> LeaveRequest.DeletedAt l = None"
  by (induction xs) (auto split: if_splits)



lemma ApproveLeave_not_found:
  assumes "fault e OpBegin = None" "fault e OpFirstLeave = None"
      and "find (\<lambda>r. LeaveRequest.ID r = id' \<and> LeaveRequest.DeletedAt r = None) (leaves d) = None"
  shows "ApproveLeave e d id' req
         = (Some (Wrapf ''leave request not found: '' ErrRecordNotFound), d)"
  using assms by (simp add: ApproveLeave_def Transaction_def First_leave_def)

lemma ApproveLeave_wrong_status:
  assumes "fault e OpBegin = None" "fault e OpFirstLeave = None"
      and "find (\<lambda>r. LeaveRequest.ID r = id' \<and> LeaveRequest.DeletedAt r = None) (leaves d) = Some l"
      and "LeaveStatus l \<noteq> ''PENDING''"
  shows "ApproveLeave e d id' req
         = (Some (Errorf (''cannot approve leave with status: '' @ LeaveStatus l)), d)"
  using assms by (simp add: ApproveLeave_def Transaction_def First_leave_def)

lemma ApproveLeave_run:
  assumes "find (\<lambda>r. LeaveRequest.ID r = id' \<and> LeaveRequest.DeletedAt r = None) (leaves d) = Some l"
      and "LeaveStatus l = ''PENDING''"
      and "find (balance_matches (LeaveRequest.EmployeeID l) (LeaveRequest.LeaveType l)
                   (Time_Year (LeaveRequest.StartDate l))) (leave_balances d) = Some b"
      and "\<forall>op. fault e op = None"
  shows "fst (ApproveLeave e d id' req) = None"
    and "leave_balances (snd (ApproveLeave e d id' req))
         = map (save_row e (b\<lparr>RemainingDays := 0,
                               UsedDays := UsedDays b + DaysRequested l,
                               TotalDays := go_max (TotalDays b) (UsedDays b + DaysRequested l)\<rparr>))
               (leave_balances d)"
  using assms
  by (simp_all add: ApproveLeave_def Transaction_def First_leave_def Updates_def
        First_balance_def Save_def Let_def)

lemma ApproveLeave_success_only:
  assumes "fst (ApproveLeave e d id' req) = None"
  shows "(\<forall>op. fault e op = None)
       \<and> (\<exists>l b. find (\<lambda>r. LeaveRequest.ID r = id' \<and> LeaveRequest.DeletedAt r = None) (leaves d)
                  = Some l
              \<and> LeaveStatus l = ''PENDING''
              \<and> find (balance_matches (LeaveRequest.EmployeeID l) (LeaveRequest.LeaveType l)
                         (Time_Year (LeaveRequest.StartDate l))) (leave_balances d) = Some b)"
proof -
  have b: "fault e OpBegin = None"
    using assms by (auto simp: ApproveLeave_def Transaction_def split: option.splits)
  have fl: "fault e OpFirstLeave = None"
    using assms b
    by (auto simp: ApproveLeave_def Transaction_def First_leave_def
             split: option.splits prod.splits)
  obtain l where l: "find (\<lambda>r. LeaveRequest.ID r = id' \<and> LeaveRequest.DeletedAt r = None)
                       (leaves d) = Some l"
    using assms b fl
    by (cases "find (\<lambda>r. LeaveRequest.ID r = id' \<and> LeaveRequest.DeletedAt r = None) (leaves d)")
       (auto simp: ApproveLeave_not_found)
  have p: "LeaveStatus l = ''PENDING''"
  proof (rule ccontr)
    assume "LeaveStatus l \<noteq> ''PENDING''"
    from ApproveLeave_wrong_status[OF b fl l this, of req]
    have "fst (ApproveLeave e d id' req) \<noteq> None" by simp
    with assms show False by simp
  qed
  have fst_l: "First_leave e d id' = Inr l"
    using fl l by (simp add: First_leave_def)
  have u: "fault e OpUpdatesLeave = None"
    using assms b p
    by (auto simp: ApproveLeave_def Transaction_def fst_l Updates_def
             split: option.splits prod.splits)
  have fb: "fault e OpFirstBalance = None"
    using assms b p u
    by (auto simp: ApproveLeave_def Transaction_def fst_l Updates_def First_balance_def
             split: option.splits prod.splits)
  obtain bl where bl: "find (balance_matches (LeaveRequest.EmployeeID l) (LeaveRequest.LeaveType l)
                         (Time_Year (LeaveRequest.StartDate l))) (leave_balances d) = Some bl"
    using assms b p u fb
    by (cases "find (balance_matches (LeaveRequest.EmployeeID l) (LeaveRequest.LeaveType l)
                         (Time_Year (LeaveRequest.StartDate l))) (leave_balances d)")
       (auto simp: ApproveLeave_def Transaction_def fst_l Updates_def First_balance_def
             split: option.splits prod.splits)
  have s: "fault e OpSaveBalance = None"
    using assms b p u fb bl
    by (auto simp: ApproveLeave_def Transaction_def fst_l Updates_def First_balance_def
                   Save_def Let_def
             split: option.splits prod.splits)
  have c: "fault e OpCommit = None"
    using assms b p u fb bl s
    by (auto simp: ApproveLeave_def Transaction_def fst_l Updates_def First_balance_def
                   Save_def Let_def
             split: option.splits prod.splits)
  have "fault e op = None" for op
    using b fl u fb s c by (cases op) simp_all
  with l p bl show ?thesis by blast
qed

lemma RejectLeave_balances:
  "leave_balances (snd (RejectLeave e d id' req)) = leave_balances d"
  by (auto simp: RejectLeave_def Transaction_def First_leave_def Updates_def
           split: option.splits sum.splits prod.splits)

lemma Update_keeps_DaysRequested:
  "map DaysRequested (leaves (snd (Update e d id' req))) = map DaysRequested (leaves d)"
  by (auto simp: Update_def Updates_def update_row_def Let_def split: option.splits)

lemma find_leave0:
  "find (\<lambda>r. LeaveRequest.ID r = ''L1'' \<and> LeaveRequest.DeletedAt r = None) (leaves db0)
   = Some leave0"
  by (simp add: db0_def leave0_def)

lemma find_rejected:
  "find (\<lambda>r. LeaveRequest.ID r = ''L1'' \<and> LeaveRequest.DeletedAt r = None) (leaves db_rejected)
   = Some (leave0\<lparr>LeaveStatus := ''REJECTED''\<rparr>)"
  by (simp add: db_rejected_def leave0_def)

lemma find_missing:
  "find (\<lambda>r. LeaveRequest.ID r = ''L9'' \<and> LeaveRequest.DeletedAt r = None) (leaves db0) = None"
  by (simp add: db0_def leave0_def)

lemma year_of_days_19723: "year_of_days 19723 = 2024"
  by code_simp

lemma Time_Year_2024: "Time_Year day_2024_01_01 = 2024"
proof -
  have "day_2024_01_01 div nsPerDay = 19723"
    by (simp add: day_2024_01_01_def nsPerDay_def)
  then show ?thesis by (simp add: Time_Year_def year_of_days_19723)
qed

lemma find_balance0:
  "find (balance_matches (LeaveRequest.EmployeeID leave0) (LeaveRequest.LeaveType leave0)
           (Time_Year (LeaveRequest.StartDate leave0))) (leave_balances db0) = Some balance0"
proof -
  have "balance_matches ''E1'' ''ANNUAL'' 2024 balance0"
    by (simp add: balance_matches_def balance0_def)
  then show ?thesis by (simp add: db0_def leave0_def Time_Year_2024)
qed

lemma env0_answers: "\<forall>op. fault env0 op = None"
  by (simp add: env0_def)

text \<open>
  Claim C1: when the request that \<open>ApproveLeave\<close> finds is not in state PENDING, the call
  returns an error and the store after the call is the store before it: no leave
  request row and no balance row differs. When the store answers the two statements
  sent up to the status check, the error is the one that names the status.
\<close>

theorem ApproveLeave_not_pending_unchanged:
  assumes "find (\<lambda>r. LeaveRequest.ID r = id' \<and> LeaveRequest.DeletedAt r = None) (leaves d) = Some l"
      and "LeaveStatus l \<noteq> ''PENDING''"
  shows "fst (ApproveLeave e d id' req) \<noteq> None
       \<and> snd (ApproveLeave e d id' req) = d
       \<and> (fault e OpBegin = None \<and> fault e OpFirstLeave = None \<longrightarrow>
            fst (ApproveLeave e d id' req)
              = Some (Errorf (''cannot approve leave with status: '' @ LeaveStatus l)))"
proof -
  have err: "fst (ApproveLeave e d id' req) \<noteq> None"
    unfolding ApproveLeave_def
    by (rule Transaction_fails) (simp add: First_leave_def assms split: option.splits)
  have same: "snd (ApproveLeave e d id' req) = d"
    using err unfolding ApproveLeave_def by (rule Transaction_rollback)
  have msg: "fst (ApproveLeave e d id' req)
               = Some (Errorf (''cannot approve leave with status: '' @ LeaveStatus l))"
    if "fault e OpBegin = None \<and> fault e OpFirstLeave = None"
    using that ApproveLeave_wrong_status[OF _ _ assms, of e req] by simp
  from err same msg show ?thesis by blast
qed

theorem ApproveLeave_not_pending_unchanged_witness:
  "fst (ApproveLeave env0 db_rejected ''L1'' approve0)
     = Some (Errorf ''cannot approve leave with status: REJECTED'')
   \<and> snd (ApproveLeave env0 db_rejected ''L1'' approve0) = db_rejected"
proof -
  have st: "LeaveStatus (leave0\<lparr>LeaveStatus := ''REJECTED''\<rparr>) \<noteq> ''PENDING''" by simp
  show ?thesis
    using ApproveLeave_not_pending_unchanged[OF find_rejected st, of env0 approve0]
    by (simp add: env0_def)
qed



text \<open>
  Claim C3, as the code has it: when the store answers and holds no live request with
  the identifier, \<open>ApproveLeave\<close> returns the error "leave request not found: " that
  wraps the store's not-found error; when the request it finds is not PENDING, it
  returns the error "cannot approve leave with status: " followed by the current
  state; the store is unchanged in both cases. Whenever \<open>ApproveLeave\<close> returns no error,
  no statement failed, the request was found PENDING and its balance row was found:
  every failure reaches the caller as an error.
\<close>

theorem ApproveLeave_error_paths:
  "(fault e OpBegin = None \<and> fault e OpFirstLeave = None
      \<and> find (\<lambda>r. LeaveRequest.ID r = id' \<and> LeaveRequest.DeletedAt r = None) (leaves d) = None
     \<longrightarrow> ApproveLeave e d id' req
           = (Some (Wrapf ''leave request not found: '' ErrRecordNotFound), d))
 \<and> (fault e OpBegin = None \<and> fault e OpFirstLeave = None
      \<and> find (\<lambda>r. LeaveRequest.ID r = id' \<and> LeaveRequest.DeletedAt r = None) (leaves d) = Some l
      \<and> LeaveStatus l \<noteq> ''PENDING''
     \<longrightarrow> ApproveLeave e d id' req
           = (Some (Errorf (''cannot approve leave with status: '' @ LeaveStatus l)), d))
 \<and> (fst (ApproveLeave e d id' req) = None
     \<longrightarrow> (\<forall>op. fault e op = None)
         \<and> (\<exists>l' b. find (\<lambda>r. LeaveRequest.ID r = id' \<and> LeaveRequest.DeletedAt r = None) (leaves d)
                      = Some l'
                \<and> LeaveStatus l' = ''PENDING''
                \<and> find (balance_matches (LeaveRequest.EmployeeID l') (LeaveRequest.LeaveType l')
                           (Time_Year (LeaveRequest.StartDate l'))) (leave_balances d) = Some b))"
  using ApproveLeave_not_found[of e id' d req] ApproveLeave_wrong_status[of e id' d l req]
    ApproveLeave_success_only[of e d id' req]
  by blast

theorem ApproveLeave_error_paths_witness:
  "ApproveLeave env0 db0 ''L9'' approve0
     = (Some (Wrapf ''leave request not found: '' ErrRecordNotFound), db0)
   \<and> Error (Wrapf ''leave request not found: '' ErrRecordNotFound)
       = ''leave request not found: record not found''
   \<and> ApproveLeave env0 db_rejected ''L1'' approve0
       = (Some (Errorf ''cannot approve leave with status: REJECTED''), db_rejected)
   \<and> fst (ApproveLeave env0 db0 ''L1'' approve0) = None
   \<and> (\<forall>op. fault env0 op = None)"
proof -
  have ok: "fault env0 OpBegin = None" "fault env0 OpFirstLeave = None"
    by (simp_all add: env0_def)
  have st: "LeaveStatus (leave0\<lparr>LeaveStatus := ''REJECTED''\<rparr>) \<noteq> ''PENDING''" by simp
  have pend: "LeaveStatus leave0 = ''PENDING''" by (simp add: leave0_def)
  have run: "fst (ApproveLeave env0 db0 ''L1'' approve0) = None"
    by (rule ApproveLeave_run(1)[OF find_leave0 pend find_balance0 env0_answers])
  have a: "ApproveLeave env0 db0 ''L9'' approve0
     = (Some (Wrapf ''leave request not found: '' ErrRecordNotFound), db0)"
    using ApproveLeave_error_paths[where e = env0 and id' = "''L9''" and d = db0 and req = approve0]
      ok find_missing by blast
  have b: "ApproveLeave env0 db_rejected ''L1'' approve0
       = (Some (Errorf (''cannot approve leave with status: ''
                         @ LeaveStatus (leave0\<lparr>LeaveStatus := ''REJECTED''\<rparr>))), db_rejected)"
    using ApproveLeave_error_paths[where e = env0 and id' = "''L1''" and d = db_rejected
            and l = "leave0\<lparr>LeaveStatus := ''REJECTED''\<rparr>" and req = approve0]
      ok find_rejected st by blast
  have c: "\<forall>op. fault env0 op = None"
    using ApproveLeave_error_paths[where e = env0 and id' = "''L1''" and d = db0 and req = approve0]
      run by blast
  from a b c run show ?thesis by simp
qed

text \<open>
  Claim C3, as it is written, fails: the errors \<open>ApproveLeave\<close> returns carry no status
  code. \<open>status.Code\<close> of the error for a missing request and of the error for a
  rejected request is \<open>Unknown\<close>, neither \<open>NotFound\<close> nor \<open>FailedPrecondition\<close>.
\<close>

theorem ApproveLeave_errors_unclassified:
  "status_Code (fst (ApproveLeave env0 db0 ''L9'' approve0)) = Unknown
   \<and> status_Code (fst (ApproveLeave env0 db0 ''L9'' approve0)) \<noteq> NotFound
   \<and> status_Code (fst (ApproveLeave env0 db_rejected ''L1'' approve0)) = Unknown
   \<and> status_Code (fst (ApproveLeave env0 db_rejected ''L1'' approve0)) \<noteq> FailedPrecondition"
proof -
  have ok: "fault env0 OpBegin = None" "fault env0 OpFirstLeave = None"
    by (simp_all add: env0_def)
  have st: "LeaveStatus (leave0\<lparr>LeaveStatus := ''REJECTED''\<rparr>) \<noteq> ''PENDING''" by simp
  show ?thesis
    by (simp add: ApproveLeave_not_found[OF ok find_missing]
          ApproveLeave_wrong_status[OF ok find_rejected st])
qed

text \<open>
  Claim C4: when the store answers every statement, rejecting a PENDING request leaves
  it with status REJECTED, the approver and the comments of the call and the instant
  of the call as approval time; no balance row is touched: the balance table after
  \<open>RejectLeave\<close> is the balance table before it.
\<close>

theorem RejectLeave_effect:
  assumes "find (\<lambda>r. LeaveRequest.ID r = id' \<and> LeaveRequest.DeletedAt r = None) (leaves d) = Some l"
      and "LeaveStatus l = ''PENDING''"
      and "\<forall>op. fault e op = None"
  shows "fst (RejectLeave e d id' req) = None
       \<and> find (\<lambda>r. LeaveRequest.ID r = id' \<and> LeaveRequest.DeletedAt r = None)
              (leaves (snd (RejectLeave e d id' req)))
           = Some (l\<lparr>LeaveStatus := ''REJECTED'',
                     LeaveRequest.ApproverID := Some (RejectLeaveRequestRequest.ApproverID req),
                     LeaveRequest.Comments := RejectLeaveRequestRequest.Comments req,
                     ApprovedAt := Some (now e),
                     LeaveRequest.UpdatedAt := NowFunc e\<rparr>)
       \<and> leave_balances (snd (RejectLeave e d id' req)) = leave_balances d"
proof -
  have k: "LeaveRequest.ID l = id'" using find_leave_Some[OF assms(1)] by simp
  have "fst (RejectLeave e d id' req) = None
       \<and> find (\<lambda>r. LeaveRequest.ID r = id' \<and> LeaveRequest.DeletedAt r = None)
              (leaves (snd (RejectLeave e d id' req)))
           = Some (l\<lparr>LeaveStatus := ''REJECTED'',
                     LeaveRequest.ApproverID := Some (RejectLeaveRequestRequest.ApproverID req),
                     LeaveRequest.Comments := RejectLeaveRequestRequest.Comments req,
                     ApprovedAt := Some (now e),
                     LeaveRequest.UpdatedAt := NowFunc e\<rparr>)"
    using assms k
    by (simp add: RejectLeave_def Transaction_def First_leave_def Updates_def find_update_row)
  then show ?thesis using RejectLeave_balances[of e d id' req] by simp
qed

theorem RejectLeave_effect_witness:
  "fst (RejectLeave env0 db0 ''L1'' reject0) = None
   \<and> map_option LeaveStatus
        (find (\<lambda>r. LeaveRequest.ID r = ''L1'' \<and> LeaveRequest.DeletedAt r = None)
           (leaves (snd (RejectLeave env0 db0 ''L1'' reject0)))) = Some ''REJECTED''
   \<and> map_option LeaveRequest.ApproverID
        (find (\<lambda>r. LeaveRequest.ID r = ''L1'' \<and> LeaveRequest.DeletedAt r = None)
           (leaves (snd (RejectLeave env0 db0 ''L1'' reject0)))) = Some (Some ''M1'')
   \<and> leave_balances (snd (RejectLeave env0 db0 ''L1'' reject0)) = [balance0]"
proof -
  have pend: "LeaveStatus leave0 = ''PENDING''" by (simp add: leave0_def)
  show ?thesis
    using RejectLeave_effect[OF find_leave0 pend env0_answers, of reject0]
    by (simp add: reject0_def db0_def)
qed

text \<open>
  Claim C6 on the code: \<open>repository.Update\<close> writes the dates and never the day count.
  Moving the end date of the three-day request 2024-01-01 to 2024-01-03 to 2024-01-10
  succeeds and stores the new end date; the stored day count stays 3, the inclusive
  span of the stored dates is 10, and \<open>ApplyUpdate\<close> on the same input gives 10.
\<close>

theorem Update_keeps_stale_day_count:
  "fst (Update env0 db0 ''L1'' update0) = None
   \<and> find (\<lambda>r. LeaveRequest.ID r = ''L1'' \<and> LeaveRequest.DeletedAt r = None)
          (leaves (snd (Update env0 db0 ''L1'' update0)))
       = Some (leave0\<lparr>LeaveRequest.EndDate := day_2024_01_10,
                      LeaveRequest.UpdatedAt := NowFunc env0\<rparr>)
   \<and> sint (DaysRequested (leave0\<lparr>LeaveRequest.EndDate := day_2024_01_10,
                                 LeaveRequest.UpdatedAt := NowFunc env0\<rparr>)) = 3
   \<and> (day_2024_01_10 - day_2024_01_01) div nsPerDay + 1 = 10
   \<and> sint (DaysRequested (ApplyUpdate leave0 update0)) = 10"
proof -
  have z: "IsZero zero_time" "\<not> IsZero day_2024_01_10"
    by (simp_all add: IsZero_def zero_time_def day_2024_01_10_def)
  have f: "UpdateLeaveRequestRequest.LeaveType update0 = []"
      "UpdateLeaveRequestRequest.Reason update0 = []"
      "UpdateLeaveRequestRequest.StartDate update0 = zero_time"
      "UpdateLeaveRequestRequest.EndDate update0 = day_2024_01_10"
    by (simp_all add: update0_def)
  have run: "Update env0 db0 ''L1'' update0
      = (None, db0\<lparr>leaves := map (update_row env0 ''L1'' [Set_end_date day_2024_01_10])
                                 (leaves db0)\<rparr>)"
    by (simp add: Update_def z f Updates_def env0_def)
  have a: "fst (Update env0 db0 ''L1'' update0) = None" by (simp add: run)
  have b: "find (\<lambda>r. LeaveRequest.ID r = ''L1'' \<and> LeaveRequest.DeletedAt r = None)
          (leaves (snd (Update env0 db0 ''L1'' update0)))
       = Some (leave0\<lparr>LeaveRequest.EndDate := day_2024_01_10,
                      LeaveRequest.UpdatedAt := NowFunc env0\<rparr>)"
    by (simp add: run find_update_row find_leave0)
  have c: "sint (DaysRequested (leave0\<lparr>LeaveRequest.EndDate := day_2024_01_10,
                                 LeaveRequest.UpdatedAt := NowFunc env0\<rparr>)) = 3"
    by (simp add: leave0_def)
  have le: "day_2024_01_01 \<le> day_2024_01_10"
      "day_2024_01_10 - day_2024_01_01 \<le> maxDuration"
    by (simp_all add: day_2024_01_01_def day_2024_01_10_def maxDuration_def)
  have "DaysRequested (ApplyUpdate leave0 update0)
          = calculateDaysRequested day_2024_01_01 day_2024_01_10"
    by (simp add: ApplyUpdate_def z f leave0_def)
  then have e: "sint (DaysRequested (ApplyUpdate leave0 update0)) = 10"
    using calculateDaysRequested_in_range[OF le] span_2024_01_10 by simp
  from a b c span_2024_01_10 e show ?thesis by blast
qed

theorem Update_keeps_stale_day_count_witness:
  "map_option (\<lambda>r. sint (DaysRequested r))
     (find (\<lambda>r. LeaveRequest.ID r = ''L1'' \<and> LeaveRequest.DeletedAt r = None)
        (leaves (snd (Update env0 db0 ''L1'' update0)))) = Some 3
   \<and> sint (DaysRequested (ApplyUpdate leave0 update0)) = 10"
  using Update_keeps_stale_day_count by simp

section \<open>The interceptors\<close>

lemma AuthFunc_Inr:
  assumes "AuthFunc ctx = Inr ctx'"
  shows "\<exists>token. token \<noteq> [] \<and> ctx' = WithValue ctx (contextKey ''token'') (StringValue token)"
  using assms
  by (auto simp: AuthFunc_def Let_def split: option.splits if_splits)

lemma Value_WithValue_other:
  "Value (WithValue ctx (contextKey k) v) (StringKey s) = Value ctx (StringKey s)"
  by (simp add: Value_def WithValue_def)

lemma Value_WithValue_same: "Value (WithValue ctx k v) k = Some v"
  by (simp add: Value_def WithValue_def)

lemma AuthFunc_ctx_fresh:
  "AuthFunc ctx_fresh = Inr (WithValue ctx_fresh (contextKey ''token'') (StringValue ''abc123''))"
  by (simp add: AuthFunc_def FromIncomingContext_def ctx_fresh_def Let_def HasPrefix_def
        TrimPrefix_def)

lemma AuthFunc_ctx_stale:
  "AuthFunc ctx_stale = Inr (WithValue ctx_stale (contextKey ''token'') (StringValue ''abc123''))"
  by (simp add: AuthFunc_def FromIncomingContext_def ctx_stale_def Let_def HasPrefix_def
        TrimPrefix_def)

lemma AuthFunc_ctx_bearer:
  "AuthFunc ctx_bearer = Inl (StatusError Unauthenticated ''missing authorization header'')"
  by (simp add: AuthFunc_def FromIncomingContext_def ctx_bearer_def Let_def)

lemma AuthFunc_ctx_no_token:
  "AuthFunc ctx_no_token = Inr (WithValue ctx_no_token (contextKey ''token'') (StringValue ''Bearer''))"
  by (simp add: AuthFunc_def FromIncomingContext_def ctx_no_token_def Let_def HasPrefix_def
        TrimPrefix_def)

lemma SkipAuth_GetEmployee: "\<not> SkipAuth ''/hr.employee.v1.EmployeeService/GetEmployee''"
  by (simp add: SkipAuth_def publicEndpoints_def)

lemma SkipAuth_RefreshToken: "\<not> SkipAuth ''/hr.auth.v1.AuthService/RefreshToken''"
  by (simp add: SkipAuth_def publicEndpoints_def)

lemma SkipAuth_Login: "SkipAuth ''/hr.auth.v1.AuthService/Login''"
  by (simp add: SkipAuth_def publicEndpoints_def)

text \<open>
  Claim C7 on the code: a call to a method outside the allow-list that carries the
  well-formed credential \<open>Bearer abc123\<close> under the metadata key \<open>authorization\<close> is
  rejected as Unauthenticated, because \<open>AuthFunc\<close> reads the key \<open>authrorization\<close>; the
  header \<open>Bearer\<close> with no token under the key that is read is accepted and the handler
  runs with the token \<open>Bearer\<close>; and the token refresh method of the service that
  holds \<open>Login\<close> is not on the allow-list, which spells the service \<open>AuthServce\<close>, so a
  refresh call goes through the check and is rejected too.
\<close>

theorem UnaryAuthInterceptor_misses_credential:
  "UnaryAuthInterceptor ctx_bearer ''req'' ''/hr.employee.v1.EmployeeService/GetEmployee''
      token_handler
     = Return None (Some (StatusError Unauthenticated ''missing authorization header''))
   \<and> UnaryAuthInterceptor ctx_no_token ''req'' ''/hr.employee.v1.EmployeeService/GetEmployee''
        token_handler
       = Return (Some (Some (StringValue ''Bearer''))) None
   \<and> \<not> SkipAuth ''/hr.auth.v1.AuthService/RefreshToken''
   \<and> UnaryAuthInterceptor ctx_bearer ''req'' ''/hr.auth.v1.AuthService/RefreshToken''
        token_handler
       = Return None (Some (StatusError Unauthenticated ''missing authorization header''))
   \<and> UnaryAuthInterceptor ctx_bearer ''req'' ''/hr.auth.v1.AuthService/Login'' token_handler
       = Return (Some None) None"
proof -
  have a: "UnaryAuthInterceptor ctx_bearer ''req'' ''/hr.employee.v1.EmployeeService/GetEmployee''
      token_handler
     = Return None (Some (StatusError Unauthenticated ''missing authorization header''))"
    by (simp add: UnaryAuthInterceptor_def SkipAuth_GetEmployee AuthFunc_ctx_bearer)
  have b: "UnaryAuthInterceptor ctx_no_token ''req'' ''/hr.employee.v1.EmployeeService/GetEmployee''
        token_handler
       = Return (Some (Some (StringValue ''Bearer''))) None"
    by (simp add: UnaryAuthInterceptor_def SkipAuth_GetEmployee AuthFunc_ctx_no_token
          token_handler_def Value_WithValue_same)
  have c: "UnaryAuthInterceptor ctx_bearer ''req'' ''/hr.auth.v1.AuthService/RefreshToken''
        token_handler
       = Return None (Some (StatusError Unauthenticated ''missing authorization header''))"
    by (simp add: UnaryAuthInterceptor_def SkipAuth_RefreshToken AuthFunc_ctx_bearer)
  have d: "UnaryAuthInterceptor ctx_bearer ''req'' ''/hr.auth.v1.AuthService/Login'' token_handler
       = Return (Some None) None"
    by (simp add: UnaryAuthInterceptor_def SkipAuth_Login token_handler_def Value_def
          ctx_bearer_def)
  from a b c d SkipAuth_RefreshToken show ?thesis by blast
qed

text \<open>
  Claim C8: the result of the recovery interceptor is never a panic. When the wrapped
  handler panics, whatever the panic value, the result is no response and the error
  Internal "internal server error"; when the handler returns, the interceptor returns
  the same response and error and logs nothing.
\<close>

theorem RecoveryInterceptor_recovers:
  "(\<forall>v. fst (RecoveryInterceptor logger ctx req m h) \<noteq> Panic v)
   \<and> (h ctx req = Panic v \<longrightarrow>
        fst (RecoveryInterceptor logger ctx req m h)
          = Return None (Some (StatusError Internal ''internal server error'')))
   \<and> (h ctx req = Return resp err \<longrightarrow>
        RecoveryInterceptor logger ctx req m h = (Return resp err, logger))"
proof (cases "h ctx req")
  case (Return resp' err')
  then have "RecoveryInterceptor logger ctx req m h = (Return resp' err', logger)"
    by (simp add: RecoveryInterceptor_def)
  with Return show ?thesis by simp
next
  case (Panic r)
  then have "fst (RecoveryInterceptor logger ctx req m h)
               = Return None (Some (StatusError Internal ''internal server error''))"
    by (simp add: RecoveryInterceptor_def)
  with Panic show ?thesis by simp
qed

theorem RecoveryInterceptor_recovers_witness:
  "fst (RecoveryInterceptor [] ctx_fresh ''req'' ''/hr.employee.v1.EmployeeService/GetEmployee''
          panic_handler)
     = Return None (Some (StatusError Internal ''internal server error''))
   \<and> Error (StatusError Internal ''internal server error'')
       = ''rpc error: code = Internal desc = internal server error''
   \<and> RecoveryInterceptor [] ctx_fresh ''req'' ''/hr.employee.v1.EmployeeService/GetEmployee''
        echo_handler
       = (Return (Some ''req'') None, [])"
proof -
  have p: "panic_handler ctx_fresh ''req'' = Panic (PanicValue ''nil pointer dereference'')"
    by (simp add: panic_handler_def)
  have r: "echo_handler ctx_fresh ''req'' = Return (Some ''req'') None"
    by (simp add: echo_handler_def)
  have a: "fst (RecoveryInterceptor [] ctx_fresh ''req''
                  ''/hr.employee.v1.EmployeeService/GetEmployee'' panic_handler)
     = Return None (Some (StatusError Internal ''internal server error''))"
    using RecoveryInterceptor_recovers[where h = panic_handler and ctx = ctx_fresh
        and req = "''req''" and v = "PanicValue ''nil pointer dereference''"] p
    by blast
  have b: "RecoveryInterceptor [] ctx_fresh ''req'' ''/hr.employee.v1.EmployeeService/GetEmployee''
        echo_handler
       = (Return (Some ''req'') None, [])"
    using RecoveryInterceptor_recovers[where h = echo_handler and ctx = ctx_fresh
        and req = "''req''" and resp = "Some ''req''" and err = None] r
    by blast
  from a b show ?thesis by simp
qed

lemma length_charset: "length charset = 62"
  by (simp add: charset_def)

lemma go_rem_nonneg: "0 \<le> a \<Longrightarrow> 0 < b \<Longrightarrow> 0 \<le> go_rem a b \<and> go_rem a b < b"
  by (cases "a = 0") (simp_all add: go_rem_def)

lemma randomString_loop_panics:
  "n \<le> length b \<Longrightarrow> length b < m \<Longrightarrow> isl (randomString_loop clock [n..<m] b)"
proof (induction "length b - n" arbitrary: n b)
  case 0
  then have "n = length b" by simp
  with 0 show ?case by (simp add: upt_conv_Cons Let_def)
next
  case (Suc k)
  then have lt: "n < length b" "n < m" by simp_all
  have step: "isl (randomString_loop clock [Suc n..<m] (b[n := c]))" for c
    using Suc by (intro Suc.hyps(1)) simp_all
  show ?case using lt step by (simp add: upt_conv_Cons Let_def)
qed

lemma randomString_loop_panics_at:
  "n \<le> length b \<Longrightarrow> length b < m \<Longrightarrow> \<forall>i. 0 \<le> clock i \<Longrightarrow>
   randomString_loop clock [n..<m] b = Inl (IndexOutOfRange (int (length b)) (int (length b)))"
proof (induction "length b - n" arbitrary: n b)
  case 0
  then have "n = length b" by simp
  moreover have "0 \<le> go_rem (clock (length b)) (int (length charset))
     \<and> go_rem (clock (length b)) (int (length charset)) < int (length charset)"
    using 0 by (intro go_rem_nonneg) (simp_all add: charset_def)
  ultimately show ?case using 0 by (simp add: upt_conv_Cons Let_def)
next
  case (Suc k)
  then have lt: "n < length b" "n < m" by simp_all
  have step: "randomString_loop clock [Suc n..<m] (b[n := c])
      = Inl (IndexOutOfRange (int (length b)) (int (length b)))" for c
    using Suc Suc.hyps(1)[of "b[n := c]" "Suc n"] by simp
  have "0 \<le> go_rem (clock n) (int (length charset))
     \<and> go_rem (clock n) (int (length charset)) < int (length charset)"
    using Suc.prems by (intro go_rem_nonneg) (simp_all add: charset_def)
  then show ?case using lt step by (simp add: upt_conv_Cons Let_def)
qed

lemma randomString_panics:
  assumes "length' <s 62"
  shows "isl (randomString clock length')"
proof (cases "length' <s 0")
  case True
  then show ?thesis by (simp add: randomString_def)
next
  case False
  then have "0 \<le> sint length'" by (simp add: word_sless_alt)
  moreover have "sint length' < 62" using assms by (simp add: word_sless_alt)
  ultimately have "length (replicate (nat (sint length')) (CHR 0x00)) < 62" by simp
  then show ?thesis using False
    by (simp add: randomString_def length_charset randomString_loop_panics del: replicate.simps)
qed

lemma randomString_panics_at:
  assumes "\<not> length' <s 0" "length' <s 62" "\<forall>i. 0 \<le> clock i"
  shows "randomString clock length' = Inl (IndexOutOfRange (sint length') (sint length'))"
proof -
  have nn: "0 \<le> sint length'" using assms(1) by (simp add: word_sless_alt)
  have lt: "sint length' < 62" using assms(2) by (simp add: word_sless_alt)
  let ?b = "replicate (nat (sint length')) (CHR 0x00)"
  have len: "length ?b < 62" "int (length ?b) = sint length'" using nn lt by simp_all
  have "randomString_loop clock [0..<62] ?b
          = Inl (IndexOutOfRange (int (length ?b)) (int (length ?b)))"
    using len(1) assms(3) by (intro randomString_loop_panics_at) simp_all
  then show ?thesis
    using assms(1) len(2) by (simp add: randomString_def length_charset del: replicate.simps)
qed

lemma generateRequestID_panics: "isl (generateRequestID stamp clock)"
proof -
  have "(8 :: go_int) <s 62" by (simp add: word_sless_alt)
  then have "isl (randomString clock 8)" by (rule randomString_panics)
  then show ?thesis by (auto simp: generateRequestID_def split: sum.splits)
qed

text \<open>
  Claim C9: for every length below 62 \<open>randomString\<close> panics and returns no string;
  for a length from 0 to 61, with clock readings that are not negative, the panic is
  the write at the index equal to the buffer length. So \<open>randomString(8)\<close> panics,
  \<open>generateRequestID\<close> panics, and \<open>getRequestID\<close> panics on every context that holds no
  string under the key \<open>"request_id"\<close>.
\<close>

theorem randomString_faults:
  "(length' <s 62 \<longrightarrow> isl (randomString clock length'))
   \<and> (\<not> length' <s 0 \<and> length' <s 62 \<and> (\<forall>i. 0 \<le> clock i) \<longrightarrow>
        randomString clock length' = Inl (IndexOutOfRange (sint length') (sint length')))
   \<and> isl (randomString clock 8)
   \<and> isl (generateRequestID stamp clock)
   \<and> ((\<forall>s. Value ctx (StringKey ''request_id'') \<noteq> Some (StringValue s)) \<longrightarrow>
        isl (getRequestID ctx stamp clock))"
proof -
  have e: "(8 :: go_int) <s 62" by (simp add: word_sless_alt)
  have g: "isl (getRequestID ctx stamp clock)"
    if "\<forall>s. Value ctx (StringKey ''request_id'') \<noteq> Some (StringValue s)"
    using that generateRequestID_panics[of stamp clock]
    by (auto simp: getRequestID_def split: option.splits ctx_value.splits)
  show ?thesis
    using randomString_panics[of length' clock] randomString_panics_at[of length' clock]
      randomString_panics[OF e, of clock] generateRequestID_panics[of stamp clock] g
    by blast
qed

theorem randomString_faults_witness:
  "randomString clock0 8 = Inl (IndexOutOfRange 8 8)
   \<and> isl (generateRequestID ''20240101120000'' clock0)
   \<and> isl (getRequestID ctx_fresh ''20240101120000'' clock0)"
proof -
  have h: "\<not> (8 :: go_int) <s 0" "(8 :: go_int) <s 62" "\<forall>i. 0 \<le> clock0 i"
    by (simp_all add: word_sless_alt clock0_def)
  have v: "\<forall>s. Value ctx_fresh (StringKey ''request_id'') \<noteq> Some (StringValue s)"
    by (simp add: Value_def ctx_fresh_def)
  have "randomString clock0 8 = Inl (IndexOutOfRange (sint (8 :: go_int)) (sint (8 :: go_int)))"
    using randomString_faults[where length' = 8 and clock = clock0] h by blast
  moreover have "isl (generateRequestID ''20240101120000'' clock0)"
    using randomString_faults[where clock = clock0 and stamp = "''20240101120000''"] by blast
  moreover have "isl (getRequestID ctx_fresh ''20240101120000'' clock0)"
    using randomString_faults[where clock = clock0 and stamp = "''20240101120000''"
        and ctx = ctx_fresh] v by blast
  ultimately show ?thesis by simp
qed

text \<open>
  Claim C10, as the code has it: on every context \<open>AuthFunc\<close> accepts, the token is
  stored under the typed key \<open>contextKey("token")\<close>, and \<open>GetTokenFromContext\<close> on the
  returned context gives what it gives on the incoming context: it never reads the
  stored credential. When the incoming context holds no string under the plain key
  \<open>"token"\<close>, that result is \<open>("", false)\<close>.
\<close>

theorem GetTokenFromContext_after_AuthFunc:
  assumes "AuthFunc ctx = Inr ctx'"
  shows "(\<exists>token. token \<noteq> [] \<and> Value ctx' (contextKey ''token'') = Some (StringValue token))
       \<and> GetTokenFromContext ctx' = GetTokenFromContext ctx
       \<and> ((\<forall>s. Value ctx (StringKey ''token'') \<noteq> Some (StringValue s))
            \<longrightarrow> GetTokenFromContext ctx' = ([], False))"
proof -
  obtain token where t: "token \<noteq> []"
      "ctx' = WithValue ctx (contextKey ''token'') (StringValue token)"
    using AuthFunc_Inr[OF assms] by blast
  have a: "Value ctx' (contextKey ''token'') = Some (StringValue token)"
    unfolding t(2) by (rule Value_WithValue_same)
  have b: "GetTokenFromContext ctx' = GetTokenFromContext ctx"
    unfolding t(2) GetTokenFromContext_def Value_WithValue_other ..
  have c: "GetTokenFromContext ctx = ([], False)"
    if "\<forall>s. Value ctx (StringKey ''token'') \<noteq> Some (StringValue s)"
    using that by (auto simp: GetTokenFromContext_def split: option.splits ctx_value.splits)
  from t(1) a b c show ?thesis by auto
qed

theorem GetTokenFromContext_after_AuthFunc_witness:
  "AuthFunc ctx_fresh = Inr (WithValue ctx_fresh (contextKey ''token'') (StringValue ''abc123''))
   \<and> Value (WithValue ctx_fresh (contextKey ''token'') (StringValue ''abc123''))
        (contextKey ''token'') = Some (StringValue ''abc123'')
   \<and> GetTokenFromContext (WithValue ctx_fresh (contextKey ''token'') (StringValue ''abc123''))
       = ([], False)"
proof -
  have v: "\<forall>s. Value ctx_fresh (StringKey ''token'') \<noteq> Some (StringValue s)"
    by (simp add: Value_def ctx_fresh_def)
  from GetTokenFromContext_after_AuthFunc[OF AuthFunc_ctx_fresh] v
  have "GetTokenFromContext (WithValue ctx_fresh (contextKey ''token'') (StringValue ''abc123''))
          = ([], False)"
    by blast
  then show ?thesis
    using AuthFunc_ctx_fresh by (simp add: Value_WithValue_same)
qed

text \<open>
  Claim C10, as it is written, fails on an accepted context that already holds a
  string under the plain key \<open>"token"\<close>: the accessor returns that string and true.
\<close>

theorem GetTokenFromContext_returns_earlier_value:
  "AuthFunc ctx_stale = Inr (WithValue ctx_stale (contextKey ''token'') (StringValue ''abc123''))
   \<and> GetTokenFromContext (WithValue ctx_stale (contextKey ''token'') (StringValue ''abc123''))
       = (''stale'', True)
   \<and> GetTokenFromContext (WithValue ctx_stale (contextKey ''token'') (StringValue ''abc123''))
       \<noteq> ([], False)"
  using AuthFunc_ctx_stale
  by (simp add: GetTokenFromContext_def Value_def WithValue_def ctx_stale_def)

end
